theory Spec2Isabelle
  imports Main
begin

section \<open>JavaScript values that the two route handlers exchange\<close>

text \<open>
  Both handlers work on values obtained from \<^verbatim>\<open>JSON.parse\<close> / \<^verbatim>\<open>req.json()\<close>. An object is
  an association list of its own properties, in the order in which they were defined;
  properties are read through lookup (\<open>map_of\<close>). Numbers are carried as integers: the only
  numbers the handlers interpret are millisecond time values.
\<close>

datatype json =
    JNull
  | JBool bool
  | JNum int
  | JStr string
  | JArr "json list"
  | JObj "(string \<times> json) list"

text \<open>A \<^verbatim>\<open>Date\<close> object holds a time value in milliseconds, or NaN (``Invalid Date'').\<close>

datatype js_date = InvalidDate | TimeValue int

text \<open>
  Property values that need not be plain JSON data: \<^verbatim>\<open>undefined\<close>, a built-in function, the object
  \<^verbatim>\<open>Object.prototype\<close> itself (both reachable through the prototype chain of an object
  literal) and \<^verbatim>\<open>Date\<close> objects (created by the events route).
\<close>

datatype jsval =
    Undefined
  | Val json
  | NativeFunction string
  | ObjectPrototype
  | DateObject js_date

type_synonym js_object = "(string \<times> jsval) list"

text \<open>Exceptions that leave a handler uncaught (neither route has a \<^verbatim>\<open>try\<close>).\<close>

datatype js_error = SyntaxError | TypeError | APIError | FetchFailed

text \<open>
  What a route handler does with a request: it returns a response (status and JSON body, as
  built by \<^verbatim>\<open>NextResponse.json\<close>), or an exception escapes it.
\<close>

datatype outcome = Response nat json | Uncaught js_error

text \<open>
  Built-ins of the JavaScript runtime that the handlers call. They are not code of this
  repository, so they are parameters of the model:
  \<^item> \<^verbatim>\<open>JSON.parse\<close> (\<open>None\<close>: it throws a \<^verbatim>\<open>SyntaxError\<close>);
  \<^item> the date-string parser behind \<^verbatim>\<open>new Date(string)\<close> (\<open>None\<close>: NaN);
  \<^item> the string conversion of a number, which joining an array applies to its numbers;
  \<^item> \<^verbatim>\<open>Date.prototype.toISOString\<close>, which \<^verbatim>\<open>JSON.stringify\<close> applies to a valid date;
  \<^item> \<^verbatim>\<open>new Date().toDateString()\<close>, the text of the current day.
\<close>

record runtime =
  JSON_parse :: "string \<Rightarrow> json option"
  Date_parse :: "string \<Rightarrow> int option"
  Number_toString :: "int \<Rightarrow> string"
  toISOString :: "int \<Rightarrow> string"
  toDateString_now :: string

subsection \<open>Object literals and spread\<close>

text \<open>Defining a property: an existing key keeps its place and takes the new value.\<close>

fun put :: "string \<Rightarrow> 'v \<Rightarrow> (string \<times> 'v) list \<Rightarrow> (string \<times> 'v) list" where
  "put k v [] = [(k, v)]"
| "put k v ((k', v') # kvs) = (if k = k' then (k, v) # kvs else (k', v') # put k v kvs)"

text \<open>The properties written after a spread in an object literal, in source order.\<close>

definition object_literal :: "(string \<times> 'v) list \<Rightarrow> (string \<times> 'v) list \<Rightarrow> (string \<times> 'v) list" where
  "object_literal spread_part props = foldl (\<lambda>obj (k, v). put k v obj) spread_part props"

fun digit_char :: "nat \<Rightarrow> char" where
  "digit_char n = char_of (48 + n)"

fun string_of_nat :: "nat \<Rightarrow> string" where
  "string_of_nat n = (if n < 10 then [digit_char n] else string_of_nat (n div 10) @ [digit_char (n mod 10)])"

declare string_of_nat.simps [simp del]

text \<open>
  \<^verbatim>\<open>{...x}\<close> copies the own enumerable properties of \<open>x\<close>: those of an object, the indexed
  elements of an array, the indexed characters of a string, and nothing for \<^verbatim>\<open>null\<close>,
  booleans and numbers.
\<close>

fun spread :: "json \<Rightarrow> (string \<times> json) list" where
  "spread (JObj kvs) = kvs"
| "spread (JArr xs) = zip (map string_of_nat [0..<length xs]) xs"
| "spread (JStr s) = zip (map string_of_nat [0..<length s]) (map (\<lambda>c. JStr [c]) s)"
| "spread _ = []"

text \<open>
  \<^verbatim>\<open>data.start\<close> and \<^verbatim>\<open>data.end\<close>: reading a property of \<^verbatim>\<open>null\<close> throws a
  \<^verbatim>\<open>TypeError\<close>; an object yields its own property or \<^verbatim>\<open>undefined\<close> (\<open>None\<close>); arrays,
  strings, numbers and booleans have no property of either name.
\<close>

fun get_member :: "json \<Rightarrow> string \<Rightarrow> js_error + json option" where
  "get_member JNull k = Inl TypeError"
| "get_member (JObj kvs) k = Inr (map_of kvs k)"
| "get_member _ k = Inr None"

subsection \<open>Dates\<close>

definition TimeClip :: "int \<Rightarrow> js_date" where
  "TimeClip t = (if \<bar>t\<bar> > 8640000000000000 then InvalidDate else TimeValue t)"

definition parse_date :: "runtime \<Rightarrow> string \<Rightarrow> js_date" where
  "parse_date rt s = (case Date_parse rt s of None \<Rightarrow> InvalidDate | Some t \<Rightarrow> TimeClip t)"

text \<open>
  The conversion of an object to a string. No value that comes from \<^verbatim>\<open>JSON.parse\<close> is
  callable, so an own property \<^verbatim>\<open>toString\<close> hides \<^verbatim>\<open>Object.prototype.toString\<close> and
  leaves no method that returns a primitive: the conversion throws a \<^verbatim>\<open>TypeError\<close>
  (\<^verbatim>\<open>valueOf\<close>, own or inherited, never returns a primitive here). Without it the
  inherited method answers \<^verbatim>\<open>[object Object]\<close>.
\<close>

definition object_text :: "(string \<times> json) list \<Rightarrow> js_error + string" where
  "object_text kvs = (if map_of kvs ''toString'' = None then Inr ''[object Object]'' else Inl TypeError)"

text \<open>
  \<^verbatim>\<open>Array.prototype.join\<close>, which is what \<^verbatim>\<open>Array.prototype.toString\<close> calls: the texts
  of the elements from left to right, separated by commas, with the empty text for
  \<^verbatim>\<open>null\<close>; the first element whose conversion throws ends it.
\<close>

fun element_text :: "runtime \<Rightarrow> json \<Rightarrow> js_error + string"
  and join :: "runtime \<Rightarrow> json list \<Rightarrow> js_error + string" where
  "element_text rt JNull = Inr []"
| "element_text rt (JBool b) = Inr (if b then ''true'' else ''false'')"
| "element_text rt (JNum n) = Inr (Number_toString rt n)"
| "element_text rt (JStr s) = Inr s"
| "element_text rt (JArr xs) = join rt xs"
| "element_text rt (JObj kvs) = object_text kvs"
| "join rt [] = Inr []"
| "join rt (x # xs) =
     (case element_text rt x of
        Inl e \<Rightarrow> Inl e
      | Inr t \<Rightarrow>
          (if xs = [] then Inr t
           else (case join rt xs of Inl e \<Rightarrow> Inl e | Inr ts \<Rightarrow> Inr (t @ '','' @ ts))))"

text \<open>
  \<^verbatim>\<open>new Date(v)\<close> with one argument; \<open>None\<close> is \<^verbatim>\<open>undefined\<close>. An array or an object
  is first converted to a primitive, which is its text or a \<^verbatim>\<open>TypeError\<close>; a text is parsed,
  anything else is taken as a number.
\<close>

fun new_Date :: "runtime \<Rightarrow> json option \<Rightarrow> js_error + js_date" where
  "new_Date rt None = Inr InvalidDate"
| "new_Date rt (Some JNull) = Inr (TimeValue 0)"
| "new_Date rt (Some (JBool b)) = Inr (TimeValue (if b then 1 else 0))"
| "new_Date rt (Some (JNum n)) = Inr (TimeClip n)"
| "new_Date rt (Some (JStr s)) = Inr (parse_date rt s)"
| "new_Date rt (Some (JArr xs)) =
     (case join rt xs of Inl e \<Rightarrow> Inl e | Inr t \<Rightarrow> Inr (parse_date rt t))"
| "new_Date rt (Some (JObj kvs)) =
     (case object_text kvs of Inl e \<Rightarrow> Inl e | Inr t \<Rightarrow> Inr (parse_date rt t))"

subsection \<open>Serialisation\<close>

text \<open>
  \<^verbatim>\<open>JSON.stringify\<close> on an object: a property whose value is \<^verbatim>\<open>undefined\<close> or a function is left out,
  \<^verbatim>\<open>Object.prototype\<close> has no enumerable own property, a \<^verbatim>\<open>Date\<close> becomes its ISO string
  or \<^verbatim>\<open>null\<close> when invalid. Request and response bodies are kept as parsed \<open>json\<close>: the
  text between \<^verbatim>\<open>JSON.stringify\<close> and the receiver's \<^verbatim>\<open>JSON.parse\<close> is not modelled.
\<close>

text \<open>\<^verbatim>\<open>Date.prototype.toJSON\<close>.\<close>

fun date_json :: "runtime \<Rightarrow> js_date \<Rightarrow> json" where
  "date_json rt InvalidDate = JNull"
| "date_json rt (TimeValue t) = JStr (toISOString rt t)"

fun stringify_value :: "runtime \<Rightarrow> jsval \<Rightarrow> json option" where
  "stringify_value rt Undefined = None"
| "stringify_value rt (Val j) = Some j"
| "stringify_value rt (NativeFunction f) = None"
| "stringify_value rt ObjectPrototype = Some (JObj [])"
| "stringify_value rt (DateObject d) = Some (date_json rt d)"

fun stringify_props :: "runtime \<Rightarrow> js_object \<Rightarrow> (string \<times> json) list" where
  "stringify_props rt [] = []"
| "stringify_props rt ((k, v) # kvs) =
     (case stringify_value rt v of
        None \<Rightarrow> stringify_props rt kvs
      | Some j \<Rightarrow> (k, j) # stringify_props rt kvs)"

definition stringify :: "runtime \<Rightarrow> js_object \<Rightarrow> json" where
  "stringify rt obj = JObj (stringify_props rt obj)"

section \<open>The events route (\<^verbatim>\<open>app/api/events/route.ts\<close>)\<close>

text \<open>The module variable \<^verbatim>\<open>EVENTS\<close> is the state; each handler takes it and returns it.\<close>

type_synonym store = "js_object list"

definition GET_events :: "runtime \<Rightarrow> store \<Rightarrow> outcome" where
  "GET_events rt EVENTS = Response 200 (JArr (map (stringify rt) EVENTS))"

text \<open>
  The object pushed by \<^verbatim>\<open>POST\<close>:
  \<^verbatim>\<open>{ ...data, start: new Date(data.start), end: new Date(data.end) }\<close>, given the two
  dates.
\<close>

definition pushed_event :: "json \<Rightarrow> js_date \<Rightarrow> js_date \<Rightarrow> js_object" where
  "pushed_event data start_date end_date =
     object_literal (map (\<lambda>(k, v). (k, Val v)) (spread data))
       [(''start'', DateObject start_date),
        (''end'', DateObject end_date)]"

text \<open>Whatever throws while the object is built escapes the handler before the push.\<close>

definition POST_events :: "runtime \<Rightarrow> json \<Rightarrow> store \<Rightarrow> outcome \<times> store" where
  "POST_events rt data EVENTS =
     (case get_member data ''start'' of
        Inl e \<Rightarrow> (Uncaught e, EVENTS)
      | Inr data_start \<Rightarrow>
          (case new_Date rt data_start of
             Inl e \<Rightarrow> (Uncaught e, EVENTS)
           | Inr start_date \<Rightarrow>
               (case get_member data ''end'' of
                  Inl e \<Rightarrow> (Uncaught e, EVENTS)
                | Inr data_end \<Rightarrow>
                    (case new_Date rt data_end of
                       Inl e \<Rightarrow> (Uncaught e, EVENTS)
                     | Inr end_date \<Rightarrow>
                         (Response 200 (JObj [(''status'', JStr ''ok'')]),
                          EVENTS @ [pushed_event data start_date end_date])))))"

text \<open>The Store operations of the specification, on the events route.\<close>

definition append_event :: "runtime \<Rightarrow> json \<Rightarrow> store \<Rightarrow> store" where
  "append_event rt data EVENTS = snd (POST_events rt data EVENTS)"

definition listAll :: "runtime \<Rightarrow> store \<Rightarrow> json list" where
  "listAll rt EVENTS = (case GET_events rt EVENTS of Response _ (JArr xs) \<Rightarrow> xs | _ \<Rightarrow> [])"


text \<open>Reading a property of a response or request body.\<close>

fun member :: "json \<Rightarrow> string \<Rightarrow> json option" where
  "member (JObj kvs) k = map_of kvs k"
| "member _ k = None"

section \<open>The OpenAI route (\<^verbatim>\<open>app/api/openai/route.ts\<close>)\<close>

subsection \<open>The category colours\<close>

definition EVENT_TYPE_COLORS :: js_object where
  "EVENT_TYPE_COLORS =
     [(''lecture'', Val (JStr ''#3B82F6'')),
      (''tutorial'', Val (JStr ''#10B981'')),
      (''club'', Val (JStr ''#8B5CF6'')),
      (''social'', Val (JStr ''#EC4899'')),
      (''exam'', Val (JStr ''#EF4444'')),
      (''assignment'', Val (JStr ''#F59E0B'')),
      (''other'', Val (JStr ''#6B7280''))]"

text \<open>
  \<^verbatim>\<open>EVENT_TYPE_COLORS\<close> is an object literal, so its prototype is \<^verbatim>\<open>Object.prototype\<close>:
  a property that is not its own is looked up there. These are the properties of
  \<^verbatim>\<open>Object.prototype\<close> (ECMAScript, with Annex B); \<^verbatim>\<open>__proto__\<close> is an accessor that
  returns the prototype of the receiver, here \<^verbatim>\<open>Object.prototype\<close> itself.
\<close>

definition Object_prototype :: js_object where
  "Object_prototype =
     [(''constructor'', NativeFunction ''Object''),
      (''hasOwnProperty'', NativeFunction ''hasOwnProperty''),
      (''isPrototypeOf'', NativeFunction ''isPrototypeOf''),
      (''propertyIsEnumerable'', NativeFunction ''propertyIsEnumerable''),
      (''toLocaleString'', NativeFunction ''toLocaleString''),
      (''toString'', NativeFunction ''toString''),
      (''valueOf'', NativeFunction ''valueOf''),
      (''__defineGetter__'', NativeFunction ''__defineGetter__''),
      (''__defineSetter__'', NativeFunction ''__defineSetter__''),
      (''__lookupGetter__'', NativeFunction ''__lookupGetter__''),
      (''__lookupSetter__'', NativeFunction ''__lookupSetter__''),
      (''__proto__'', ObjectPrototype)]"

text \<open>\<^verbatim>\<open>obj[k]\<close> on an object literal: own property, else inherited, else \<^verbatim>\<open>undefined\<close>.\<close>

definition get_property :: "js_object \<Rightarrow> string \<Rightarrow> jsval" where
  "get_property obj k =
     (case map_of obj k of
        Some v \<Rightarrow> v
      | None \<Rightarrow> (case map_of Object_prototype k of Some v \<Rightarrow> v | None \<Rightarrow> Undefined))"

fun truthy :: "jsval \<Rightarrow> bool" where
  "truthy Undefined = False"
| "truthy (Val JNull) = False"
| "truthy (Val (JBool b)) = b"
| "truthy (Val (JNum n)) = (n \<noteq> 0)"
| "truthy (Val (JStr s)) = (s \<noteq> [])"
| "truthy (Val (JArr xs)) = True"
| "truthy (Val (JObj kvs)) = True"
| "truthy (NativeFunction f) = True"
| "truthy ObjectPrototype = True"
| "truthy (DateObject d) = True"

text \<open>\<^verbatim>\<open>a || b\<close>.\<close>

definition or_else :: "jsval \<Rightarrow> jsval \<Rightarrow> jsval" where
  "or_else a b = (if truthy a then a else b)"

text \<open>
  \<^verbatim>\<open>EVENT_TYPE_COLORS[eventType as keyof typeof EVENT_TYPE_COLORS] || EVENT_TYPE_COLORS.other\<close>
  (the cast is erased at run time).
\<close>

definition resolve_color :: "string \<Rightarrow> jsval" where
  "resolve_color eventType =
     or_else (get_property EVENT_TYPE_COLORS eventType) (get_property EVENT_TYPE_COLORS ''other'')"

subsection \<open>The completion service and the storage request\<close>

text \<open>The part of a chat completion that the handler reads.\<close>

record tool_call =
  arguments :: "string option"

record chat_message =
  tool_calls :: "tool_call list option"

record choice =
  message :: chat_message

record chat_completion =
  choices :: "choice list"

text \<open>
  What happens to \<^verbatim>\<open>fetch(".../api/events", {method: 'POST', ...})\<close>: the request reaches
  the events route of this application, or the promise resolves with the answer (of the given
  status) of something else at that URL, or it rejects.
\<close>

datatype fetch_result = Delivered | Answered nat | Rejected

text \<open>
  The surroundings of one submission: the completion service, as a function of the message
  content it is sent (\<open>Inl\<close>: the call throws), and the fate of the storage request.
\<close>

record world =
  completions_create :: "string \<Rightarrow> js_error + chat_completion"
  events_fetch :: fetch_result

text \<open>
  The body of a request to the route, \<^verbatim>\<open>{ prompt: string; eventType: string }\<close>;
  \<open>body_eventType = None\<close> is a body without the property, for which the
  destructuring default \<^verbatim>\<open>'other'\<close> applies.
\<close>

record request =
  body_prompt :: string
  body_eventType :: "string option"

subsection \<open>The handler\<close>

definition contextualPrompt :: "string \<Rightarrow> string \<Rightarrow> string \<Rightarrow> string" where
  \<open>contextualPrompt prompt eventType today = concat
     [[CHR 0x0A, CHR 0x09], ''Create a calendar event from this description: "'', prompt, ''"'',
      [CHR 0x0A, CHR 0x09],
      [CHR 0x0A, CHR 0x09], ''Event context: This is a '', eventType, '' event.'',
      [CHR 0x0A, CHR 0x09],
      [CHR 0x0A, CHR 0x09], ''Additional guidelines:'',
      [CHR 0x0A, CHR 0x09], ''- If no end time is specified, make it 1 hour long for lectures/tutorials, 30 minutes for social events, 2-3 hours for exams'',
      [CHR 0x0A, CHR 0x09], ''- For recurring events (like "every Monday"), create just one instance for now'',
      [CHR 0x0A, CHR 0x09], ''- Include relevant details in the description field'',
      [CHR 0x0A, CHR 0x09], ''- Use the current date context: Today is '', today,
      [CHR 0x0A, CHR 0x09], ''- Be smart about relative dates: "tomorrow", "next week", "Friday", etc.'',
      [CHR 0x0A, CHR 0x09], ''- Consider academic context for scheduling (avoid very early/late hours unless specified)'',
      [CHR 0x0A, CHR 0x09]]\<close>

text \<open>The line of the prompt that carries the default durations.\<close>

definition duration_guidance :: string where
  "duration_guidance = ''- If no end time is specified, make it 1 hour long for lectures/tutorials, 30 minutes for social events, 2-3 hours for exams''"

text \<open>\<^verbatim>\<open>chat.choices[0].message.tool_calls?.[0]\<close>, given \<^verbatim>\<open>chat.choices[0]\<close>.\<close>

fun first_tool_call :: "choice \<Rightarrow> tool_call option" where
  "first_tool_call c = (case tool_calls (message c) of None \<Rightarrow> None | Some [] \<Rightarrow> None | Some (tc # _) \<Rightarrow> Some tc)"

text \<open>\<^verbatim>\<open>toolCall.function.arguments || '{}'\<close>: an absent or empty string is falsy.\<close>

fun arguments_or_default :: "tool_call \<Rightarrow> string" where
  "arguments_or_default tc = (case arguments tc of None \<Rightarrow> ''{}'' | Some s \<Rightarrow> if s = [] then ''{}'' else s)"

text \<open>\<^verbatim>\<open>{ ...eventData, eventType, color: ..., resource: eventType }\<close>.\<close>

definition enhancedEventData :: "json \<Rightarrow> string \<Rightarrow> js_object" where
  "enhancedEventData eventData eventType =
     object_literal (map (\<lambda>(k, v). (k, Val v)) (spread eventData))
       [(''eventType'', Val (JStr eventType)),
        (''color'', resolve_color eventType),
        (''resource'', Val (JStr eventType))]"

text \<open>
  One run of the handler: its outcome, \<^verbatim>\<open>EVENTS\<close> afterwards, how many times it called
  the completion service, and the bodies of the storage requests it issued.
\<close>

record run =
  result :: outcome
  events_after :: store
  completion_calls :: nat
  storage_requests :: "json list"

text \<open>\<^verbatim>\<open>const { prompt, eventType = 'other' } = await req.json()\<close>.\<close>

definition eventType_of :: "request \<Rightarrow> string" where
  "eventType_of req = (case body_eventType req of None \<Rightarrow> ''other'' | Some t \<Rightarrow> t)"

definition POST_openai :: "runtime \<Rightarrow> world \<Rightarrow> request \<Rightarrow> store \<Rightarrow> run" where
  "POST_openai rt w req EVENTS =
     (case completions_create w
             (contextualPrompt (body_prompt req) (eventType_of req) (toDateString_now rt)) of
        Inl e \<Rightarrow>
          \<lparr>result = Uncaught e, events_after = EVENTS, completion_calls = 1, storage_requests = []\<rparr>
      | Inr chat \<Rightarrow>
          (case choices chat of
             [] \<Rightarrow>
               \<lparr>result = Uncaught TypeError, events_after = EVENTS, completion_calls = 1,
                storage_requests = []\<rparr>
           | c # _ \<Rightarrow>
               (case first_tool_call c of
                  None \<Rightarrow>
                    \<lparr>result = Response 400 (JObj [(''error'', JStr ''No function call'')]),
                     events_after = EVENTS, completion_calls = 1, storage_requests = []\<rparr>
                | Some toolCall \<Rightarrow>
                    (case JSON_parse rt (arguments_or_default toolCall) of
                       None \<Rightarrow>
                         \<lparr>result = Uncaught SyntaxError, events_after = EVENTS,
                          completion_calls = 1, storage_requests = []\<rparr>
                     | Some eventData \<Rightarrow>
                         (let body = stringify rt (enhancedEventData eventData (eventType_of req)) in
                          case events_fetch w of
                            Rejected \<Rightarrow>
                              \<lparr>result = Uncaught FetchFailed, events_after = EVENTS,
                               completion_calls = 1, storage_requests = [body]\<rparr>
                          | Answered status \<Rightarrow>
                              \<lparr>result = Response 200 body, events_after = EVENTS,
                               completion_calls = 1, storage_requests = [body]\<rparr>
                          | Delivered \<Rightarrow>
                              \<lparr>result = Response 200 body,
                               events_after = snd (POST_events rt body EVENTS),
                               completion_calls = 1, storage_requests = [body]\<rparr>)))))"

subsection \<open>The handler without categories\<close>

text \<open>
  The repository also holds a shorter version of the route, which takes only \<^verbatim>\<open>prompt\<close>,
  sends it as the message content, and forwards and returns the parsed arguments as they
  are. Its storage request carries any JSON value, so the events route may throw on it; the
  handler does not look at that answer either.
\<close>

definition POST_openai_plain :: "runtime \<Rightarrow> world \<Rightarrow> string \<Rightarrow> store \<Rightarrow> run" where
  "POST_openai_plain rt w prompt EVENTS =
     (case completions_create w prompt of
        Inl e \<Rightarrow>
          \<lparr>result = Uncaught e, events_after = EVENTS, completion_calls = 1, storage_requests = []\<rparr>
      | Inr chat \<Rightarrow>
          (case choices chat of
             [] \<Rightarrow>
               \<lparr>result = Uncaught TypeError, events_after = EVENTS, completion_calls = 1,
                storage_requests = []\<rparr>
           | c # _ \<Rightarrow>
               (case first_tool_call c of
                  None \<Rightarrow>
                    \<lparr>result = Response 400 (JObj [(''error'', JStr ''No function call'')]),
                     events_after = EVENTS, completion_calls = 1, storage_requests = []\<rparr>
                | Some toolCall \<Rightarrow>
                    (case JSON_parse rt (arguments_or_default toolCall) of
                       None \<Rightarrow>
                         \<lparr>result = Uncaught SyntaxError, events_after = EVENTS,
                          completion_calls = 1, storage_requests = []\<rparr>
                     | Some eventData \<Rightarrow>
                         (case events_fetch w of
                            Rejected \<Rightarrow>
                              \<lparr>result = Uncaught FetchFailed, events_after = EVENTS,
                               completion_calls = 1, storage_requests = [eventData]\<rparr>
                          | Answered status \<Rightarrow>
                              \<lparr>result = Response 200 eventData, events_after = EVENTS,
                               completion_calls = 1, storage_requests = [eventData]\<rparr>
                          | Delivered \<Rightarrow>
                              \<lparr>result = Response 200 eventData,
                               events_after = snd (POST_events rt eventData EVENTS),
                               completion_calls = 1, storage_requests = [eventData]\<rparr>)))))"

section \<open>The input component (\<^verbatim>\<open>AIInput\<close>)\<close>

datatype EventType = lecture | tutorial | club | social | exam | assignment | other

fun EventType_key :: "EventType \<Rightarrow> string" where
  "EventType_key lecture = ''lecture''"
| "EventType_key tutorial = ''tutorial''"
| "EventType_key club = ''club''"
| "EventType_key social = ''social''"
| "EventType_key exam = ''exam''"
| "EventType_key assignment = ''assignment''"
| "EventType_key other = ''other''"

text \<open>
  The text typed by the user is a JavaScript string, a sequence of UTF-16 code units; it is
  kept as such here, since \<^verbatim>\<open>trim\<close> looks at code units.
\<close>

type_synonym js_string = "nat list"

record ui =
  input :: js_string
  loading :: bool
  selectedType :: EventType
  showSuccess :: bool

text \<open>
  What \<^verbatim>\<open>String.prototype.trim\<close> strips from both ends: the ECMAScript white space (tab,
  vertical tab, form feed, U+FEFF and the space separators of Unicode: U+0020, U+00A0, U+1680,
  U+2000 to U+200A, U+202F, U+205F, U+3000) and the line terminators (line feed, carriage
  return, U+2028, U+2029).
\<close>

definition white_space :: "nat \<Rightarrow> bool" where
  "white_space c =
     (c \<in> set [0x0009, 0x000B, 0x000C, 0xFEFF,
               0x0020, 0x00A0, 0x1680,
               0x2000, 0x2001, 0x2002, 0x2003, 0x2004, 0x2005, 0x2006, 0x2007, 0x2008, 0x2009,
               0x200A, 0x202F, 0x205F, 0x3000,
               0x000A, 0x000D, 0x2028, 0x2029])"

definition trim :: "js_string \<Rightarrow> js_string" where
  "trim s = rev (dropWhile white_space (rev (dropWhile white_space s)))"

text \<open>
  \<^verbatim>\<open>handleSubmit\<close>. The parameter \<open>api\<close> is \<^verbatim>\<open>fetch('/api/openai', ...)\<close> with the body
  \<^verbatim>\<open>{ prompt: input, eventType: selectedType }\<close>, followed by \<^verbatim>\<open>res.json()\<close>, acting on the
  server's state: \<open>None\<close> when either of them throws (the \<^verbatim>\<open>catch\<close> branch). The timer that
  hides the success message later is not modelled.
\<close>

definition handleSubmit ::
  "(js_string \<Rightarrow> EventType \<Rightarrow> 's \<Rightarrow> json option \<times> 's) \<Rightarrow> ui \<Rightarrow> 's \<Rightarrow> ui \<times> 's" where
  "handleSubmit api u server =
     (if trim (input u) = [] then (u, server)
      else
        (let u1 = u\<lparr>loading := True, showSuccess := False\<rparr>;
             (data, server') = api (input u) (selectedType u) server
         in case data of
              Some d \<Rightarrow> (u1\<lparr>showSuccess := True, input := [], loading := False\<rparr>, server')
            | None \<Rightarrow> (u1\<lparr>loading := False\<rparr>, server')))"

text \<open>
  The text of the prompt on the server side is a \<open>string\<close> of bytes: the UTF-8 form of the
  code points of the JavaScript string (a surrogate pair is one code point; a surrogate
  without its partner keeps its own three bytes).
\<close>

fun code_points :: "nat list \<Rightarrow> nat list" where
  "code_points (hi # lo # cs) =
     (if 0xD800 \<le> hi \<and> hi < 0xDC00 \<and> 0xDC00 \<le> lo \<and> lo < 0xE000
      then (0x10000 + (hi - 0xD800) * 0x400 + (lo - 0xDC00)) # code_points cs
      else hi # code_points (lo # cs))"
| "code_points cs = cs"

definition utf8_code_point :: "nat \<Rightarrow> string" where
  "utf8_code_point cp =
     (if cp < 0x80 then [char_of cp]
      else if cp < 0x800 then [char_of (0xC0 + cp div 0x40), char_of (0x80 + cp mod 0x40)]
      else if cp < 0x10000 then
        [char_of (0xE0 + cp div 0x1000), char_of (0x80 + cp div 0x40 mod 0x40),
         char_of (0x80 + cp mod 0x40)]
      else
        [char_of (0xF0 + cp div 0x40000), char_of (0x80 + cp div 0x1000 mod 0x40),
         char_of (0x80 + cp div 0x40 mod 0x40), char_of (0x80 + cp mod 0x40)])"

definition utf8 :: "js_string \<Rightarrow> string" where
  "utf8 s = concat (map utf8_code_point (code_points s))"

text \<open>
  The server behind \<open>api\<close>: the OpenAI route on the pair of \<^verbatim>\<open>EVENTS\<close> and a counter of
  calls to the completion service. An uncaught exception in the route is answered by the
  framework with a 500 whose body is not JSON, so \<^verbatim>\<open>res.json()\<close> throws.
\<close>

definition openai_endpoint ::
  "runtime \<Rightarrow> world \<Rightarrow> js_string \<Rightarrow> EventType \<Rightarrow> store \<times> nat \<Rightarrow> json option \<times> (store \<times> nat)" where
  "openai_endpoint rt w text category server =
     (let r = POST_openai rt w
                \<lparr>body_prompt = utf8 text, body_eventType = Some (EventType_key category)\<rparr>
                (fst server) in
      (case result r of Response status body \<Rightarrow> Some body | Uncaught e \<Rightarrow> None,
       (events_after r, snd server + completion_calls r)))"

section \<open>The ordering of \<^verbatim>\<open>start\<close> and \<^verbatim>\<open>end\<close> in the Store\<close>

definition end_not_before_start :: "js_object \<Rightarrow> bool" where
  "end_not_before_start ev =
     (case (map_of ev ''start'', map_of ev ''end'') of
        (Some (DateObject (TimeValue s)), Some (DateObject (TimeValue e))) \<Rightarrow> s \<le> e
      | _ \<Rightarrow> False)"

section \<open>A concrete runtime and concrete surroundings\<close>

text \<open>
  Values of the built-ins on the strings used in the examples below; on these strings they
  are the values that ECMAScript prescribes. The text of a number is its decimal form, as
  it is for every integer that a number holds exactly below \<open>10\<^sup>2\<^sup>1\<close>.
\<close>

definition sample_JSON_parse :: "string \<Rightarrow> json option" where
  \<open>sample_JSON_parse s =
     (if s = ''{}'' then Some (JObj [])
      else if s = ''{"title":"Math lecture","start":"2025-07-29T09:00:00Z","end":"2025-07-29T10:00:00Z"}''
        then Some (JObj [(''title'', JStr ''Math lecture''),
                         (''start'', JStr ''2025-07-29T09:00:00Z''),
                         (''end'', JStr ''2025-07-29T10:00:00Z'')])
      else if s = ''{"title":"Coffee with Sam","start":"2025-07-30T15:00:00Z","description":"Coffee meetup"}''
        then Some (JObj [(''title'', JStr ''Coffee with Sam''),
                         (''start'', JStr ''2025-07-30T15:00:00Z''),
                         (''description'', JStr ''Coffee meetup'')])
      else if s = ''{"title":"Review session","start":"2025-07-29T10:00:00Z","end":"2025-07-29T09:00:00Z"}''
        then Some (JObj [(''title'', JStr ''Review session''),
                         (''start'', JStr ''2025-07-29T10:00:00Z''),
                         (''end'', JStr ''2025-07-29T09:00:00Z'')])
      else None)\<close>

definition sample_Date_parse :: "string \<Rightarrow> int option" where
  "sample_Date_parse s =
     (if s = ''2025-07-29T09:00:00Z'' then Some 1753779600000
      else if s = ''2025-07-29T10:00:00Z'' then Some 1753783200000
      else if s = ''2025-07-30T15:00:00Z'' then Some 1753887600000
      else None)"

definition sample_toISOString :: "int \<Rightarrow> string" where
  "sample_toISOString t =
     (if t = 1753779600000 then ''2025-07-29T09:00:00.000Z''
      else if t = 1753783200000 then ''2025-07-29T10:00:00.000Z''
      else if t = 1753887600000 then ''2025-07-30T15:00:00.000Z''
      else [])"

definition sample_Number_toString :: "int \<Rightarrow> string" where
  "sample_Number_toString n =
     (if n < 0 then ''-'' @ string_of_nat (nat (- n)) else string_of_nat (nat n))"

definition sample_runtime :: runtime where
  "sample_runtime =
     \<lparr>JSON_parse = sample_JSON_parse,
      Date_parse = sample_Date_parse,
      Number_toString = sample_Number_toString,
      toISOString = sample_toISOString,
      toDateString_now = ''Mon Jul 28 2025''\<rparr>"

text \<open>
  A completion service that answers every message with one choice carrying the given tool
  calls, and a storage request with the given fate.
\<close>

definition sample_world :: "tool_call list option \<Rightarrow> fetch_result \<Rightarrow> world" where
  "sample_world tcs f =
     \<lparr>completions_create = (\<lambda>content. Inr \<lparr>choices = [\<lparr>message = \<lparr>tool_calls = tcs\<rparr>\<rparr>]\<rparr>),
      events_fetch = f\<rparr>"

definition math_lecture :: string where
  \<open>math_lecture = ''{"title":"Math lecture","start":"2025-07-29T09:00:00Z","end":"2025-07-29T10:00:00Z"}''\<close>

definition coffee_without_end :: string where
  \<open>coffee_without_end = ''{"title":"Coffee with Sam","start":"2025-07-30T15:00:00Z","description":"Coffee meetup"}''\<close>

definition review_end_before_start :: string where
  \<open>review_end_before_start = ''{"title":"Review session","start":"2025-07-29T10:00:00Z","end":"2025-07-29T09:00:00Z"}''\<close>

section \<open>Auxiliary facts\<close>

lemma map_of_put: "map_of (put k v kvs) = (map_of kvs)(k \<mapsto> v)"
  by (induction kvs) auto

lemma stringify_props_vals: "stringify_props rt (map (\<lambda>(k, v). (k, Val v)) kvs) = kvs"
  by (induction kvs) auto

lemma map_of_stringify_put_other:
  "k \<noteq> k' \<Longrightarrow> map_of (stringify_props rt (put k' v obj)) k = map_of (stringify_props rt obj) k"
  by (induction obj) (auto split: option.splits)

lemma map_of_stringify_put_same:
  "stringify_value rt v = Some j \<Longrightarrow> map_of (stringify_props rt (put k v obj)) k = Some j"
  by (induction obj) (auto split: option.splits)

lemma enhanced_unfold:
  "enhancedEventData eventData et =
     put ''resource'' (Val (JStr et)) (put ''color'' (resolve_color et)
       (put ''eventType'' (Val (JStr et)) (map (\<lambda>(k, v). (k, Val v)) (spread eventData))))"
  by (simp add: enhancedEventData_def object_literal_def)

lemma member_enhanced_other:
  assumes "k \<noteq> ''eventType''" "k \<noteq> ''color''" "k \<noteq> ''resource''"
  shows "member (stringify rt (enhancedEventData (JObj p) et)) k = map_of p k"
  using assms
  by (simp add: stringify_def enhanced_unfold map_of_stringify_put_other stringify_props_vals)

lemma member_enhanced_eventType:
  "member (stringify rt (enhancedEventData eventData et)) ''eventType'' = Some (JStr et)"
  by (simp add: stringify_def enhanced_unfold map_of_stringify_put_other map_of_stringify_put_same)

lemma member_enhanced_color:
  "stringify_value rt (resolve_color et) = Some j \<Longrightarrow>
   member (stringify rt (enhancedEventData eventData et)) ''color'' = Some j"
  by (simp add: stringify_def enhanced_unfold map_of_stringify_put_other map_of_stringify_put_same)

text \<open>The colour of a key of the table is its entry, and every entry is a string.\<close>

lemma resolve_color_own:
  "map_of EVENT_TYPE_COLORS c = Some col \<Longrightarrow> resolve_color c = col \<and> (\<exists>s. col = Val (JStr s))"
  by (auto simp: EVENT_TYPE_COLORS_def resolve_color_def get_property_def or_else_def
      split: if_splits)

text \<open>
  A key that is neither in the table nor a property of \<^verbatim>\<open>Object.prototype\<close> takes the
  colour of \<^verbatim>\<open>other\<close>.
\<close>

lemma resolve_color_unknown:
  "map_of EVENT_TYPE_COLORS c = None \<Longrightarrow> map_of Object_prototype c = None \<Longrightarrow>
   resolve_color c = Val (JStr ''#6B7280'')"
  by (simp add: resolve_color_def get_property_def or_else_def) (simp add: EVENT_TYPE_COLORS_def)

text \<open>A key that names a property of \<^verbatim>\<open>Object.prototype\<close> takes that property as its colour.\<close>

lemma resolve_color_inherited:
  "map_of Object_prototype c = Some v \<Longrightarrow> resolve_color c = v"
  by (auto simp: EVENT_TYPE_COLORS_def Object_prototype_def resolve_color_def get_property_def
      or_else_def split: if_splits)

text \<open>Every message sent to the completion service contains the duration guidance.\<close>

lemma prompt_carries_duration_guidance:
  "\<exists>before after. contextualPrompt prompt eventType today = before @ duration_guidance @ after"
  unfolding contextualPrompt_def duration_guidance_def concat.simps append_Nil2
  by (metis append.assoc)

text \<open>The handler calls the completion service exactly once, whatever the request.\<close>

lemma completion_calls_one: "completion_calls (POST_openai rt w req EVENTS) = 1"
  by (simp add: POST_openai_def Let_def split: sum.splits list.splits option.splits fetch_result.splits
      del: first_tool_call.simps arguments_or_default.simps)

text \<open>The handler once the completion carries a tool call whose arguments parse.\<close>

lemma POST_openai_proposal:
  assumes "completions_create w
             (contextualPrompt (body_prompt req) (eventType_of req) (toDateString_now rt)) = Inr chat"
    and "choices chat = c # cs"
    and "first_tool_call c = Some tc"
    and "JSON_parse rt (arguments_or_default tc) = Some eventData"
  shows "POST_openai rt w req EVENTS =
     (case events_fetch w of
        Rejected \<Rightarrow>
          \<lparr>result = Uncaught FetchFailed, events_after = EVENTS, completion_calls = 1,
           storage_requests = [stringify rt (enhancedEventData eventData (eventType_of req))]\<rparr>
      | Answered status \<Rightarrow>
          \<lparr>result = Response 200 (stringify rt (enhancedEventData eventData (eventType_of req))),
           events_after = EVENTS, completion_calls = 1,
           storage_requests = [stringify rt (enhancedEventData eventData (eventType_of req))]\<rparr>
      | Delivered \<Rightarrow>
          \<lparr>result = Response 200 (stringify rt (enhancedEventData eventData (eventType_of req))),
           events_after =
             snd (POST_events rt (stringify rt (enhancedEventData eventData (eventType_of req))) EVENTS),
           completion_calls = 1,
           storage_requests = [stringify rt (enhancedEventData eventData (eventType_of req))]\<rparr>)"
  using assms
  by (simp add: POST_openai_def Let_def del: first_tool_call.simps arguments_or_default.simps)

lemma result_proposal:
  assumes "completions_create w
             (contextualPrompt (body_prompt req) (eventType_of req) (toDateString_now rt)) = Inr chat"
    and "choices chat = c # cs"
    and "first_tool_call c = Some tc"
    and "JSON_parse rt (arguments_or_default tc) = Some eventData"
    and "events_fetch w \<noteq> Rejected"
  shows "result (POST_openai rt w req EVENTS)
         = Response 200 (stringify rt (enhancedEventData eventData (eventType_of req)))"
  using assms(5) by (simp add: POST_openai_proposal [OF assms(1-4)] split: fetch_result.splits)

text \<open>The shorter handler returns the parsed arguments whenever the storage request resolves.\<close>

lemma result_plain:
  assumes "completions_create w prompt = Inr chat"
    and "choices chat = c # cs"
    and "first_tool_call c = Some tc"
    and "JSON_parse rt (arguments_or_default tc) = Some eventData"
    and "events_fetch w \<noteq> Rejected"
  shows "result (POST_openai_plain rt w prompt EVENTS) = Response 200 eventData"
  using assms
  by (simp add: POST_openai_plain_def split: fetch_result.splits
      del: first_tool_call.simps arguments_or_default.simps)

lemma events_after_plain_unanswered:
  assumes "completions_create w prompt = Inr chat"
    and "choices chat = c # cs"
    and "first_tool_call c = Some tc"
    and "JSON_parse rt (arguments_or_default tc) = Some eventData"
    and "events_fetch w = Answered status \<or> eventData = JNull"
  shows "events_after (POST_openai_plain rt w prompt EVENTS) = EVENTS"
  using assms
  by (auto simp: POST_openai_plain_def POST_events_def split: fetch_result.splits
      simp del: first_tool_call.simps arguments_or_default.simps)

text \<open>The events route on an object whose two dates can be made.\<close>

lemma POST_events_object:
  assumes "new_Date rt (map_of e ''start'') = Inr start_date"
    and "new_Date rt (map_of e ''end'') = Inr end_date"
  shows "POST_events rt (JObj e) EVENTS =
     (Response 200 (JObj [(''status'', JStr ''ok'')]),
      EVENTS @ [pushed_event (JObj e) start_date end_date])"
  using assms by (simp add: POST_events_def)



lemma pushed_event_dates:
  "map_of (pushed_event data start_date end_date) ''start'' = Some (DateObject start_date)"
  "map_of (pushed_event data start_date end_date) ''end'' = Some (DateObject end_date)"
  by (simp_all add: pushed_event_def object_literal_def map_of_put)

lemma pushed_event_other:
  assumes "k \<noteq> ''start''" "k \<noteq> ''end''"
  shows "map_of (pushed_event data start_date end_date) k = map_option Val (map_of (spread data) k)"
  using assms by (simp add: pushed_event_def object_literal_def map_of_put map_of_map)

text \<open>What the Store holds after a delivered storage request.\<close>

lemma events_after_delivery:
  assumes "completions_create w
             (contextualPrompt (body_prompt req) (eventType_of req) (toDateString_now rt)) = Inr chat"
    and "choices chat = c # cs"
    and "first_tool_call c = Some tc"
    and "JSON_parse rt (arguments_or_default tc) = Some (JObj p)"
    and "events_fetch w = Delivered"
    and "new_Date rt (map_of p ''start'') = Inr start_date"
    and "new_Date rt (map_of p ''end'') = Inr end_date"
  shows "events_after (POST_openai rt w req EVENTS) =
     EVENTS @ [pushed_event (stringify rt (enhancedEventData (JObj p) (eventType_of req)))
                 start_date end_date]"
proof -
  let ?props = "stringify_props rt (enhancedEventData (JObj p) (eventType_of req))"
  have body: "stringify rt (enhancedEventData (JObj p) (eventType_of req)) = JObj ?props"
    by (simp add: stringify_def)
  have "member (JObj ?props) ''start'' = map_of p ''start''"
    unfolding body [symmetric] by (rule member_enhanced_other) simp_all
  then have start: "new_Date rt (map_of ?props ''start'') = Inr start_date"
    using assms(6) by simp
  have "member (JObj ?props) ''end'' = map_of p ''end''"
    unfolding body [symmetric] by (rule member_enhanced_other) simp_all
  then have "end": "new_Date rt (map_of ?props ''end'') = Inr end_date"
    using assms(7) by simp
  have "events_after (POST_openai rt w req EVENTS) = snd (POST_events rt (JObj ?props) EVENTS)"
    using assms(5) by (simp add: POST_openai_proposal [OF assms(1-4)] body)
  also have "\<dots> = EVENTS @ [pushed_event (JObj ?props) start_date end_date]"
    by (simp add: POST_events_object [OF start "end"])
  finally show ?thesis by (simp add: body)
qed









text \<open>The concrete surroundings, evaluated.\<close>

lemma sample_completion:
  "completions_create (sample_world tcs f) content
   = Inr \<lparr>choices = [\<lparr>message = \<lparr>tool_calls = tcs\<rparr>\<rparr>]\<rparr>"
  "events_fetch (sample_world tcs f) = f"
  by (simp_all add: sample_world_def)

lemma sample_parse:
  "JSON_parse sample_runtime ''{}'' = Some (JObj [])"
  "JSON_parse sample_runtime math_lecture
   = Some (JObj [(''title'', JStr ''Math lecture''),
                 (''start'', JStr ''2025-07-29T09:00:00Z''),
                 (''end'', JStr ''2025-07-29T10:00:00Z'')])"
  "JSON_parse sample_runtime coffee_without_end
   = Some (JObj [(''title'', JStr ''Coffee with Sam''),
                 (''start'', JStr ''2025-07-30T15:00:00Z''),
                 (''description'', JStr ''Coffee meetup'')])"
  "JSON_parse sample_runtime review_end_before_start
   = Some (JObj [(''title'', JStr ''Review session''),
                 (''start'', JStr ''2025-07-29T10:00:00Z''),
                 (''end'', JStr ''2025-07-29T09:00:00Z'')])"
  "JSON_parse sample_runtime ''{title'' = None"
  by (simp_all add: sample_runtime_def sample_JSON_parse_def math_lecture_def
      coffee_without_end_def review_end_before_start_def)

lemma sample_arguments:
  "arguments_or_default \<lparr>arguments = Some math_lecture\<rparr> = math_lecture"
  "arguments_or_default \<lparr>arguments = Some coffee_without_end\<rparr> = coffee_without_end"
  "arguments_or_default \<lparr>arguments = Some review_end_before_start\<rparr> = review_end_before_start"
  by (simp_all add: math_lecture_def coffee_without_end_def review_end_before_start_def)

lemma sample_dates:
  "parse_date sample_runtime ''2025-07-29T09:00:00Z'' = TimeValue 1753779600000"
  "parse_date sample_runtime ''2025-07-29T10:00:00Z'' = TimeValue 1753783200000"
  "parse_date sample_runtime ''2025-07-30T15:00:00Z'' = TimeValue 1753887600000"
  by (simp_all add: parse_date_def sample_runtime_def sample_Date_parse_def TimeClip_def)

lemmas evaluate =
  POST_openai_def Let_def eventType_of_def enhancedEventData_def object_literal_def stringify_def
  resolve_color_def get_property_def or_else_def EVENT_TYPE_COLORS_def Object_prototype_def
  POST_events_def pushed_event_def sample_completion sample_arguments sample_parse sample_dates

section \<open>Properties of the Store\<close>




text \<open>
  C6 (amended). The handlers never compare \<^verbatim>\<open>start\<close> and \<^verbatim>\<open>end\<close>. If every event of
  the Store has valid dates with \<^verbatim>\<open>end\<close> not before \<^verbatim>\<open>start\<close>, and the proposal of the
  completion service has a \<^verbatim>\<open>start\<close> and an \<^verbatim>\<open>end\<close> that \<^verbatim>\<open>new Date\<close> turns into valid
  dates in that order, then the same holds of the Store after the submission, whatever
  happens to the storage request.
\<close>

theorem ordering_kept_for_ordered_proposal:
  assumes "list_all end_not_before_start EVENTS"
    and "completions_create w
             (contextualPrompt (body_prompt req) (eventType_of req) (toDateString_now rt)) = Inr chat"
    and "choices chat = c # cs"
    and "first_tool_call c = Some tc"
    and "JSON_parse rt (arguments_or_default tc) = Some (JObj p)"
    and "new_Date rt (map_of p ''start'') = Inr (TimeValue s)"
    and "new_Date rt (map_of p ''end'') = Inr (TimeValue e)"
    and "s \<le> e"
  shows "list_all end_not_before_start (events_after (POST_openai rt w req EVENTS))"
proof (cases "events_fetch w")
  case Delivered
  let ?ev = "pushed_event (stringify rt (enhancedEventData (JObj p) (eventType_of req)))
               (TimeValue s) (TimeValue e)"
  have "events_after (POST_openai rt w req EVENTS) = EVENTS @ [?ev]"
    using assms(2-5) Delivered assms(6,7) by (rule events_after_delivery)
  moreover have "end_not_before_start ?ev"
    using assms(8) by (simp add: end_not_before_start_def pushed_event_dates)
  ultimately show ?thesis using assms(1) by simp
next
  case (Answered status)
  then show ?thesis using assms(1) by (simp add: POST_openai_proposal [OF assms(2-5)])
next
  case Rejected
  then show ?thesis using assms(1) by (simp add: POST_openai_proposal [OF assms(2-5)])
qed

text \<open>The theorem applied to the lecture from 09:00 to 10:00 and a Store of one event.\<close>

theorem ordering_kept_for_ordered_proposal_witness:
  "list_all end_not_before_start
     [[(''title'', Val (JStr ''Earlier event'')), (''start'', DateObject (TimeValue 0)),
       (''end'', DateObject (TimeValue 3600000))]]
   \<and> new_Date sample_runtime (map_of [(''title'', JStr ''Math lecture''),
        (''start'', JStr ''2025-07-29T09:00:00Z''), (''end'', JStr ''2025-07-29T10:00:00Z'')] ''start'')
     = Inr (TimeValue 1753779600000)
   \<and> new_Date sample_runtime (map_of [(''title'', JStr ''Math lecture''),
        (''start'', JStr ''2025-07-29T09:00:00Z''), (''end'', JStr ''2025-07-29T10:00:00Z'')] ''end'')
     = Inr (TimeValue 1753783200000)
   \<and> (1753779600000 :: int) \<le> 1753783200000
   \<and> list_all end_not_before_start (events_after (POST_openai sample_runtime
        (sample_world (Some [\<lparr>arguments = Some math_lecture\<rparr>]) Delivered)
        \<lparr>body_prompt = ''Math lecture tomorrow at 9am'', body_eventType = Some ''lecture''\<rparr>
        [[(''title'', Val (JStr ''Earlier event'')), (''start'', DateObject (TimeValue 0)),
          (''end'', DateObject (TimeValue 3600000))]]))"
proof -
  let ?tc = "\<lparr>arguments = Some math_lecture\<rparr>"
  let ?c = "\<lparr>message = \<lparr>tool_calls = Some [?tc]\<rparr>\<rparr>"
  let ?w = "sample_world (Some [?tc]) Delivered"
  let ?req = "\<lparr>body_prompt = ''Math lecture tomorrow at 9am'', body_eventType = Some ''lecture''\<rparr>"
  let ?p = "[(''title'', JStr ''Math lecture''), (''start'', JStr ''2025-07-29T09:00:00Z''),
             (''end'', JStr ''2025-07-29T10:00:00Z'')]"
  let ?EVENTS = "[[(''title'', Val (JStr ''Earlier event'')), (''start'', DateObject (TimeValue 0)),
                   (''end'', DateObject (TimeValue 3600000))]]"
  have h0: "list_all end_not_before_start ?EVENTS" by (simp add: end_not_before_start_def)
  have h1: "completions_create ?w
      (contextualPrompt (body_prompt ?req) (eventType_of ?req) (toDateString_now sample_runtime))
      = Inr \<lparr>choices = [?c]\<rparr>"
    by (rule sample_completion)
  have h2: "choices \<lparr>choices = [?c]\<rparr> = ?c # []" by simp
  have h3: "first_tool_call ?c = Some ?tc" by simp
  have h4: "JSON_parse sample_runtime (arguments_or_default ?tc) = Some (JObj ?p)"
    by (simp only: sample_arguments sample_parse)
  have h5: "new_Date sample_runtime (map_of ?p ''start'') = Inr (TimeValue 1753779600000)"
    by (simp add: sample_dates)
  have h6: "new_Date sample_runtime (map_of ?p ''end'') = Inr (TimeValue 1753783200000)"
    by (simp add: sample_dates)
  have h7: "(1753779600000 :: int) \<le> 1753783200000" by simp
  from ordering_kept_for_ordered_proposal [OF h0 h1 h2 h3 h4 h5 h6 h7] h0 h5 h6 h7
  show ?thesis by blast
qed

text \<open>
  As stated, the ordering does not hold of every stored event: a proposal whose \<^verbatim>\<open>end\<close>
  is an hour before its \<^verbatim>\<open>start\<close> is stored as it is.
\<close>

theorem review_stored_with_end_before_start:
  "events_after (POST_openai sample_runtime
            (sample_world (Some [\<lparr>arguments = Some review_end_before_start\<rparr>]) Delivered)
            \<lparr>body_prompt = ''Review session tomorrow at 10'', body_eventType = Some ''tutorial''\<rparr> [])
     = [[(''title'', Val (JStr ''Review session'')),
         (''start'', DateObject (TimeValue 1753783200000)),
         (''end'', DateObject (TimeValue 1753779600000)),
         (''eventType'', Val (JStr ''tutorial'')),
         (''color'', Val (JStr ''#10B981'')),
         (''resource'', Val (JStr ''tutorial''))]]
   \<and> \<not> list_all end_not_before_start (events_after (POST_openai sample_runtime
            (sample_world (Some [\<lparr>arguments = Some review_end_before_start\<rparr>]) Delivered)
            \<lparr>body_prompt = ''Review session tomorrow at 10'', body_eventType = Some ''tutorial''\<rparr> []))"
proof -
  have st: "events_after (POST_openai sample_runtime
            (sample_world (Some [\<lparr>arguments = Some review_end_before_start\<rparr>]) Delivered)
            \<lparr>body_prompt = ''Review session tomorrow at 10'', body_eventType = Some ''tutorial''\<rparr> [])
     = [[(''title'', Val (JStr ''Review session'')),
         (''start'', DateObject (TimeValue 1753783200000)),
         (''end'', DateObject (TimeValue 1753779600000)),
         (''eventType'', Val (JStr ''tutorial'')),
         (''color'', Val (JStr ''#10B981'')),
         (''resource'', Val (JStr ''tutorial''))]]"
    by (simp add: evaluate del: arguments_or_default.simps)
  show ?thesis unfolding st by (simp add: end_not_before_start_def)
qed

section \<open>Properties of a submission\<close>

text \<open>
  C3. When the first choice of the completion has no tool call (\<^verbatim>\<open>tool_calls\<close> absent or
  empty), the handler answers 400 \<^verbatim>\<open>{ error: 'No function call' }\<close>, does not touch
  \<^verbatim>\<open>EVENTS\<close>, and the listing of the Store is what it was before the submission.
\<close>

theorem no_function_call_leaves_store:
  assumes "completions_create w
             (contextualPrompt (body_prompt req) (eventType_of req) (toDateString_now rt)) = Inr chat"
    and "choices chat = c # cs"
    and "tool_calls (message c) = None \<or> tool_calls (message c) = Some []"
  shows "result (POST_openai rt w req EVENTS)
           = Response 400 (JObj [(''error'', JStr ''No function call'')])
         \<and> events_after (POST_openai rt w req EVENTS) = EVENTS
         \<and> listAll rt (events_after (POST_openai rt w req EVENTS)) = listAll rt EVENTS"
proof -
  from assms(3) have "first_tool_call c = None" by auto
  with assms(1,2) have "POST_openai rt w req EVENTS =
      \<lparr>result = Response 400 (JObj [(''error'', JStr ''No function call'')]),
       events_after = EVENTS, completion_calls = 1, storage_requests = []\<rparr>"
    by (simp add: POST_openai_def del: first_tool_call.simps)
  then show ?thesis by simp
qed

text \<open>The theorem applied to a completion without tool calls and a Store of one event.\<close>

theorem no_function_call_leaves_store_witness:
  "completions_create (sample_world None Delivered)
     (contextualPrompt ''Something next week'' ''club'' (toDateString_now sample_runtime))
     = Inr \<lparr>choices = [\<lparr>message = \<lparr>tool_calls = None\<rparr>\<rparr>]\<rparr>
   \<and> result (POST_openai sample_runtime (sample_world None Delivered)
        \<lparr>body_prompt = ''Something next week'', body_eventType = Some ''club''\<rparr>
        [[(''title'', Val (JStr ''Earlier event''))]])
      = Response 400 (JObj [(''error'', JStr ''No function call'')])
   \<and> events_after (POST_openai sample_runtime (sample_world None Delivered)
        \<lparr>body_prompt = ''Something next week'', body_eventType = Some ''club''\<rparr>
        [[(''title'', Val (JStr ''Earlier event''))]])
      = [[(''title'', Val (JStr ''Earlier event''))]]"
proof -
  let ?w = "sample_world None Delivered"
  let ?req = "\<lparr>body_prompt = ''Something next week'', body_eventType = Some ''club''\<rparr>"
  let ?c = "\<lparr>message = \<lparr>tool_calls = None\<rparr>\<rparr>"
  have h1: "completions_create ?w
      (contextualPrompt (body_prompt ?req) (eventType_of ?req) (toDateString_now sample_runtime))
      = Inr \<lparr>choices = [?c]\<rparr>"
    by (rule sample_completion)
  have h1': "completions_create ?w
      (contextualPrompt ''Something next week'' ''club'' (toDateString_now sample_runtime))
      = Inr \<lparr>choices = [?c]\<rparr>"
    by (rule sample_completion)
  have h2: "choices \<lparr>choices = [?c]\<rparr> = ?c # []" by simp
  have h3: "tool_calls (message ?c) = None \<or> tool_calls (message ?c) = Some []" by simp
  from no_function_call_leaves_store [OF h1 h2 h3] h1' show ?thesis by blast
qed

text \<open>
  C1 (amended). The handler never derives \<^verbatim>\<open>end\<close>: when the storage request does not
  reject, the event it returns has exactly the \<^verbatim>\<open>end\<close> of the proposal, absent when the
  proposal has none. (The default durations are only guidance in the message sent to the
  completion service, \<open>prompt_carries_duration_guidance\<close>.)
\<close>

theorem end_taken_from_proposal:
  assumes "completions_create w
             (contextualPrompt (body_prompt req) (eventType_of req) (toDateString_now rt)) = Inr chat"
    and "choices chat = c # cs"
    and "first_tool_call c = Some tc"
    and "JSON_parse rt (arguments_or_default tc) = Some (JObj p)"
    and "events_fetch w \<noteq> Rejected"
  shows "result (POST_openai rt w req EVENTS)
           = Response 200 (stringify rt (enhancedEventData (JObj p) (eventType_of req)))
         \<and> member (stringify rt (enhancedEventData (JObj p) (eventType_of req))) ''end''
           = map_of p ''end''"
proof
  show "result (POST_openai rt w req EVENTS)
        = Response 200 (stringify rt (enhancedEventData (JObj p) (eventType_of req)))"
    using assms by (rule result_proposal)
  show "member (stringify rt (enhancedEventData (JObj p) (eventType_of req))) ''end'' = map_of p ''end''"
    by (rule member_enhanced_other) simp_all
qed

text \<open>The theorem applied to a proposal without \<^verbatim>\<open>end\<close>: the returned event has none.\<close>

theorem end_taken_from_proposal_witness:
  "first_tool_call \<lparr>message = \<lparr>tool_calls = Some [\<lparr>arguments = Some coffee_without_end\<rparr>]\<rparr>\<rparr>
     = Some \<lparr>arguments = Some coffee_without_end\<rparr>
   \<and> JSON_parse sample_runtime (arguments_or_default \<lparr>arguments = Some coffee_without_end\<rparr>)
     = Some (JObj [(''title'', JStr ''Coffee with Sam''),
                   (''start'', JStr ''2025-07-30T15:00:00Z''),
                   (''description'', JStr ''Coffee meetup'')])
   \<and> events_fetch (sample_world (Some [\<lparr>arguments = Some coffee_without_end\<rparr>]) (Answered 404)) \<noteq> Rejected
   \<and> member (stringify sample_runtime (enhancedEventData
         (JObj [(''title'', JStr ''Coffee with Sam''),
                (''start'', JStr ''2025-07-30T15:00:00Z''),
                (''description'', JStr ''Coffee meetup'')])
         (eventType_of \<lparr>body_prompt = ''Coffee with Sam tomorrow at 3pm'', body_eventType = Some ''social''\<rparr>)))
       ''end'' = None"
proof -
  let ?tc = "\<lparr>arguments = Some coffee_without_end\<rparr>"
  let ?c = "\<lparr>message = \<lparr>tool_calls = Some [?tc]\<rparr>\<rparr>"
  let ?w = "sample_world (Some [?tc]) (Answered 404)"
  let ?req = "\<lparr>body_prompt = ''Coffee with Sam tomorrow at 3pm'', body_eventType = Some ''social''\<rparr>"
  let ?p = "[(''title'', JStr ''Coffee with Sam''), (''start'', JStr ''2025-07-30T15:00:00Z''),
             (''description'', JStr ''Coffee meetup'')]"
  have h1: "completions_create ?w
      (contextualPrompt (body_prompt ?req) (eventType_of ?req) (toDateString_now sample_runtime))
      = Inr \<lparr>choices = [?c]\<rparr>"
    by (rule sample_completion)
  have h2: "choices \<lparr>choices = [?c]\<rparr> = ?c # []" by simp
  have h3: "first_tool_call ?c = Some ?tc" by simp
  have h4: "JSON_parse sample_runtime (arguments_or_default ?tc) = Some (JObj ?p)"
    by (simp only: sample_arguments sample_parse)
  have h5: "events_fetch ?w \<noteq> Rejected" by (simp add: sample_completion)
  from end_taken_from_proposal [OF h1 h2 h3 h4 h5, of "[]"] h3 h4 h5 show ?thesis by simp
qed

text \<open>
  As stated, the claim fails on the coffee meeting of the specification: the proposal has
  no \<^verbatim>\<open>end\<close>, the returned event has none either (not 15:30), and the Store keeps an
  invalid date.
\<close>

theorem coffee_end_left_undefined:
  "result (POST_openai sample_runtime
            (sample_world (Some [\<lparr>arguments = Some coffee_without_end\<rparr>]) Delivered)
            \<lparr>body_prompt = ''Coffee with Sam tomorrow at 3pm'', body_eventType = Some ''social''\<rparr> [])
     = Response 200
        (JObj [(''title'', JStr ''Coffee with Sam''),
               (''start'', JStr ''2025-07-30T15:00:00Z''),
               (''description'', JStr ''Coffee meetup''),
               (''eventType'', JStr ''social''),
               (''color'', JStr ''#EC4899''),
               (''resource'', JStr ''social'')])
   \<and> events_after (POST_openai sample_runtime
            (sample_world (Some [\<lparr>arguments = Some coffee_without_end\<rparr>]) Delivered)
            \<lparr>body_prompt = ''Coffee with Sam tomorrow at 3pm'', body_eventType = Some ''social''\<rparr> [])
     = [[(''title'', Val (JStr ''Coffee with Sam'')),
         (''start'', DateObject (TimeValue 1753887600000)),
         (''description'', Val (JStr ''Coffee meetup'')),
         (''eventType'', Val (JStr ''social'')),
         (''color'', Val (JStr ''#EC4899'')),
         (''resource'', Val (JStr ''social'')),
         (''end'', DateObject InvalidDate)]]"
  by (simp add: evaluate del: arguments_or_default.simps)

text \<open>
  C5 (amended). For a category of the table, a proposal that is an object, and a storage
  request that does not reject, the handler returns 200 with an event whose
  \<^verbatim>\<open>eventType\<close> is the category of the request, whose \<^verbatim>\<open>color\<close> is the table's entry for
  it, and whose \<^verbatim>\<open>start\<close> and \<^verbatim>\<open>end\<close> are those of the proposal, unchanged.
\<close>

theorem proposal_fields_preserved:
  assumes "completions_create w
             (contextualPrompt (body_prompt req) (eventType_of req) (toDateString_now rt)) = Inr chat"
    and "choices chat = c # cs"
    and "first_tool_call c = Some tc"
    and "JSON_parse rt (arguments_or_default tc) = Some (JObj p)"
    and "events_fetch w \<noteq> Rejected"
    and "body_eventType req = Some category"
    and "map_of EVENT_TYPE_COLORS category = Some color"
  shows "result (POST_openai rt w req EVENTS)
           = Response 200 (stringify rt (enhancedEventData (JObj p) category))
         \<and> member (stringify rt (enhancedEventData (JObj p) category)) ''eventType''
           = Some (JStr category)
         \<and> map_option Val (member (stringify rt (enhancedEventData (JObj p) category)) ''color'')
           = Some color
         \<and> member (stringify rt (enhancedEventData (JObj p) category)) ''start'' = map_of p ''start''
         \<and> member (stringify rt (enhancedEventData (JObj p) category)) ''end'' = map_of p ''end''"
proof -
  let ?body = "stringify rt (enhancedEventData (JObj p) category)"
  from assms(6) have et: "eventType_of req = category" by (simp add: eventType_of_def)
  have r: "result (POST_openai rt w req EVENTS) = Response 200 ?body"
    using result_proposal [OF assms(1-5)] by (simp add: et)
  from resolve_color_own [OF assms(7)] obtain s
    where col: "resolve_color category = color" "color = Val (JStr s)" by blast
  then have "stringify_value rt (resolve_color category) = Some (JStr s)" by simp
  then have "member ?body ''color'' = Some (JStr s)" by (rule member_enhanced_color)
  then have c: "map_option Val (member ?body ''color'') = Some color" by (simp add: col)
  have t: "member ?body ''eventType'' = Some (JStr category)" by (rule member_enhanced_eventType)
  have s: "member ?body ''start'' = map_of p ''start''" by (rule member_enhanced_other) simp_all
  have e: "member ?body ''end'' = map_of p ''end''" by (rule member_enhanced_other) simp_all
  from r t c s e show ?thesis by simp
qed

text \<open>The theorem applied to the lecture proposal and a delivered storage request.\<close>

theorem proposal_fields_preserved_witness:
  "JSON_parse sample_runtime (arguments_or_default \<lparr>arguments = Some math_lecture\<rparr>)
     = Some (JObj [(''title'', JStr ''Math lecture''),
                   (''start'', JStr ''2025-07-29T09:00:00Z''),
                   (''end'', JStr ''2025-07-29T10:00:00Z'')])
   \<and> map_of EVENT_TYPE_COLORS ''lecture'' = Some (Val (JStr ''#3B82F6''))
   \<and> result (POST_openai sample_runtime
        (sample_world (Some [\<lparr>arguments = Some math_lecture\<rparr>]) Delivered)
        \<lparr>body_prompt = ''Math lecture tomorrow at 9am'', body_eventType = Some ''lecture''\<rparr> [])
     = Response 200
        (JObj [(''title'', JStr ''Math lecture''),
               (''start'', JStr ''2025-07-29T09:00:00Z''),
               (''end'', JStr ''2025-07-29T10:00:00Z''),
               (''eventType'', JStr ''lecture''),
               (''color'', JStr ''#3B82F6''),
               (''resource'', JStr ''lecture'')])"
proof -
  let ?tc = "\<lparr>arguments = Some math_lecture\<rparr>"
  let ?c = "\<lparr>message = \<lparr>tool_calls = Some [?tc]\<rparr>\<rparr>"
  let ?w = "sample_world (Some [?tc]) Delivered"
  let ?req = "\<lparr>body_prompt = ''Math lecture tomorrow at 9am'', body_eventType = Some ''lecture''\<rparr>"
  let ?p = "[(''title'', JStr ''Math lecture''), (''start'', JStr ''2025-07-29T09:00:00Z''),
             (''end'', JStr ''2025-07-29T10:00:00Z'')]"
  have h1: "completions_create ?w
      (contextualPrompt (body_prompt ?req) (eventType_of ?req) (toDateString_now sample_runtime))
      = Inr \<lparr>choices = [?c]\<rparr>"
    by (rule sample_completion)
  have h2: "choices \<lparr>choices = [?c]\<rparr> = ?c # []" by simp
  have h3: "first_tool_call ?c = Some ?tc" by simp
  have h4: "JSON_parse sample_runtime (arguments_or_default ?tc) = Some (JObj ?p)"
    by (simp only: sample_arguments sample_parse)
  have h5: "events_fetch ?w \<noteq> Rejected" by (simp add: sample_completion)
  have h6: "body_eventType ?req = Some ''lecture''" by simp
  have h7: "map_of EVENT_TYPE_COLORS ''lecture'' = Some (Val (JStr ''#3B82F6''))"
    by (simp add: EVENT_TYPE_COLORS_def)
  have body: "stringify sample_runtime (enhancedEventData (JObj ?p) ''lecture'')
      = JObj [(''title'', JStr ''Math lecture''),
               (''start'', JStr ''2025-07-29T09:00:00Z''),
               (''end'', JStr ''2025-07-29T10:00:00Z''),
               (''eventType'', JStr ''lecture''),
               (''color'', JStr ''#3B82F6''),
               (''resource'', JStr ''lecture'')]"
    by (simp add: evaluate)
  from proposal_fields_preserved [OF h1 h2 h3 h4 h5 h6 h7, of "[]"] h4 h7 body
  show ?thesis by simp
qed

text \<open>
  As stated (any valid proposal yields an event), the claim fails when the storage request
  rejects: the exception escapes the handler and no event is returned.
\<close>

theorem storage_failure_returns_no_event:
  "result (POST_openai sample_runtime
            (sample_world (Some [\<lparr>arguments = Some math_lecture\<rparr>]) Rejected)
            \<lparr>body_prompt = ''Math lecture tomorrow at 9am'', body_eventType = Some ''lecture''\<rparr> [])
     = Uncaught FetchFailed"
  by (simp add: evaluate del: arguments_or_default.simps)

text \<open>
  C8 (amended). When the tool call carries a non-empty arguments string that
  \<^verbatim>\<open>JSON.parse\<close> rejects, the \<^verbatim>\<open>SyntaxError\<close> escapes the handler uncaught: the handler
  builds no error response of its own. \<^verbatim>\<open>EVENTS\<close> is untouched, so no event is created.
\<close>

theorem malformed_arguments_fail:
  assumes "completions_create w
             (contextualPrompt (body_prompt req) (eventType_of req) (toDateString_now rt)) = Inr chat"
    and "choices chat = c # cs"
    and "first_tool_call c = Some tc"
    and "arguments tc = Some a"
    and "a \<noteq> []"
    and "JSON_parse rt a = None"
  shows "result (POST_openai rt w req EVENTS) = Uncaught SyntaxError
         \<and> events_after (POST_openai rt w req EVENTS) = EVENTS"
proof -
  from assms(4,5) have "arguments_or_default tc = a" by simp
  with assms(6) have "JSON_parse rt (arguments_or_default tc) = None" by simp
  with assms(1-3) have "POST_openai rt w req EVENTS =
      \<lparr>result = Uncaught SyntaxError, events_after = EVENTS, completion_calls = 1,
       storage_requests = []\<rparr>"
    by (simp add: POST_openai_def del: first_tool_call.simps arguments_or_default.simps)
  then show ?thesis by simp
qed

text \<open>The theorem applied to the arguments \<^verbatim>\<open>{title\<close> and a Store of one event.\<close>

theorem malformed_arguments_fail_witness:
  "arguments \<lparr>arguments = Some ''{title''\<rparr> = Some ''{title''
   \<and> ''{title'' \<noteq> []
   \<and> JSON_parse sample_runtime ''{title'' = None
   \<and> result (POST_openai sample_runtime
        (sample_world (Some [\<lparr>arguments = Some ''{title''\<rparr>]) Delivered)
        \<lparr>body_prompt = ''Math lecture tomorrow at 9am'', body_eventType = Some ''lecture''\<rparr>
        [[(''title'', Val (JStr ''Earlier event''))]])
     = Uncaught SyntaxError
   \<and> events_after (POST_openai sample_runtime
        (sample_world (Some [\<lparr>arguments = Some ''{title''\<rparr>]) Delivered)
        \<lparr>body_prompt = ''Math lecture tomorrow at 9am'', body_eventType = Some ''lecture''\<rparr>
        [[(''title'', Val (JStr ''Earlier event''))]])
     = [[(''title'', Val (JStr ''Earlier event''))]]"
proof -
  let ?tc = "\<lparr>arguments = Some ''{title''\<rparr>"
  let ?c = "\<lparr>message = \<lparr>tool_calls = Some [?tc]\<rparr>\<rparr>"
  let ?w = "sample_world (Some [?tc]) Delivered"
  let ?req = "\<lparr>body_prompt = ''Math lecture tomorrow at 9am'', body_eventType = Some ''lecture''\<rparr>"
  have h1: "completions_create ?w
      (contextualPrompt (body_prompt ?req) (eventType_of ?req) (toDateString_now sample_runtime))
      = Inr \<lparr>choices = [?c]\<rparr>"
    by (rule sample_completion)
  have h2: "choices \<lparr>choices = [?c]\<rparr> = ?c # []" by simp
  have h3: "first_tool_call ?c = Some ?tc" by simp
  have h4: "arguments ?tc = Some ''{title''" by simp
  have h5: "''{title'' \<noteq> []" by simp
  have h6: "JSON_parse sample_runtime ''{title'' = None" by (rule sample_parse)
  from malformed_arguments_fail [OF h1 h2 h3 h4 h5 h6] h4 h5 h6 show ?thesis by blast
qed

text \<open>
  As stated (the failure is reported by the handler, not an unhandled exception), the claim
  fails: the outcome is the uncaught \<^verbatim>\<open>SyntaxError\<close>, not a response.
\<close>

theorem malformed_arguments_escape_uncaught:
  "result (POST_openai sample_runtime
            (sample_world (Some [\<lparr>arguments = Some ''{title''\<rparr>]) Delivered)
            \<lparr>body_prompt = ''Math lecture tomorrow at 9am'', body_eventType = Some ''lecture''\<rparr> [])
     = Uncaught SyntaxError"
  by (simp add: evaluate)

text \<open>
  C9 (amended). Once a proposal is obtained, the handler issues one storage request
  carrying the enhanced event and waits for it. If the request rejects, the exception
  escapes and nothing is returned. Otherwise the handler answers 200 with the enhanced event
  without looking at the answer: the response is the same whether the request was delivered
  to the events route (\<^verbatim>\<open>EVENTS\<close> is then what that route makes of the body) or answered,
  with any status, by something else (\<^verbatim>\<open>EVENTS\<close> is then unchanged, and success is reported
  although nothing was appended).
\<close>

theorem storage_response_ignored:
  assumes "completions_create w
             (contextualPrompt (body_prompt req) (eventType_of req) (toDateString_now rt)) = Inr chat"
    and "choices chat = c # cs"
    and "first_tool_call c = Some tc"
    and "JSON_parse rt (arguments_or_default tc) = Some eventData"
  shows "storage_requests (POST_openai rt w req EVENTS)
           = [stringify rt (enhancedEventData eventData (eventType_of req))]
         \<and> result (POST_openai rt (w\<lparr>events_fetch := Answered status\<rparr>) req EVENTS)
           = Response 200 (stringify rt (enhancedEventData eventData (eventType_of req)))
         \<and> events_after (POST_openai rt (w\<lparr>events_fetch := Answered status\<rparr>) req EVENTS) = EVENTS
         \<and> result (POST_openai rt (w\<lparr>events_fetch := Delivered\<rparr>) req EVENTS)
           = Response 200 (stringify rt (enhancedEventData eventData (eventType_of req)))
         \<and> events_after (POST_openai rt (w\<lparr>events_fetch := Delivered\<rparr>) req EVENTS)
           = append_event rt (stringify rt (enhancedEventData eventData (eventType_of req))) EVENTS
         \<and> result (POST_openai rt (w\<lparr>events_fetch := Rejected\<rparr>) req EVENTS)
           = Uncaught FetchFailed
         \<and> events_after (POST_openai rt (w\<lparr>events_fetch := Rejected\<rparr>) req EVENTS) = EVENTS"
proof -
  have create: "completions_create (w\<lparr>events_fetch := f\<rparr>)
          (contextualPrompt (body_prompt req) (eventType_of req) (toDateString_now rt)) = Inr chat"
    for f
    using assms(1) by simp
  have issued: "storage_requests (POST_openai rt w req EVENTS)
      = [stringify rt (enhancedEventData eventData (eventType_of req))]"
    by (simp add: POST_openai_proposal [OF assms] split: fetch_result.splits)
  have answered: "POST_openai rt (w\<lparr>events_fetch := Answered status\<rparr>) req EVENTS =
      \<lparr>result = Response 200 (stringify rt (enhancedEventData eventData (eventType_of req))),
       events_after = EVENTS, completion_calls = 1,
       storage_requests = [stringify rt (enhancedEventData eventData (eventType_of req))]\<rparr>"
    by (simp add: POST_openai_proposal [OF create assms(2-4)])
  have delivered: "POST_openai rt (w\<lparr>events_fetch := Delivered\<rparr>) req EVENTS =
      \<lparr>result = Response 200 (stringify rt (enhancedEventData eventData (eventType_of req))),
       events_after =
         append_event rt (stringify rt (enhancedEventData eventData (eventType_of req))) EVENTS,
       completion_calls = 1,
       storage_requests = [stringify rt (enhancedEventData eventData (eventType_of req))]\<rparr>"
    by (simp add: POST_openai_proposal [OF create assms(2-4)] append_event_def)
  have rejected: "POST_openai rt (w\<lparr>events_fetch := Rejected\<rparr>) req EVENTS =
      \<lparr>result = Uncaught FetchFailed, events_after = EVENTS, completion_calls = 1,
       storage_requests = [stringify rt (enhancedEventData eventData (eventType_of req))]\<rparr>"
    by (simp add: POST_openai_proposal [OF create assms(2-4)])
  from issued answered delivered rejected show ?thesis by simp
qed

text \<open>
  The theorem applied to the lecture proposal: answered with status 500 the handler reports
  success and the Store stays empty; delivered, the same response and one stored event.
\<close>

theorem storage_response_ignored_witness:
  "JSON_parse sample_runtime (arguments_or_default \<lparr>arguments = Some math_lecture\<rparr>)
     = Some (JObj [(''title'', JStr ''Math lecture''),
                   (''start'', JStr ''2025-07-29T09:00:00Z''),
                   (''end'', JStr ''2025-07-29T10:00:00Z'')])
   \<and> result (POST_openai sample_runtime
        (sample_world (Some [\<lparr>arguments = Some math_lecture\<rparr>]) (Answered 500))
        \<lparr>body_prompt = ''Math lecture tomorrow at 9am'', body_eventType = Some ''lecture''\<rparr> [])
     = Response 200
        (JObj [(''title'', JStr ''Math lecture''),
               (''start'', JStr ''2025-07-29T09:00:00Z''),
               (''end'', JStr ''2025-07-29T10:00:00Z''),
               (''eventType'', JStr ''lecture''),
               (''color'', JStr ''#3B82F6''),
               (''resource'', JStr ''lecture'')])
   \<and> events_after (POST_openai sample_runtime
        (sample_world (Some [\<lparr>arguments = Some math_lecture\<rparr>]) (Answered 500))
        \<lparr>body_prompt = ''Math lecture tomorrow at 9am'', body_eventType = Some ''lecture''\<rparr> [])
     = []
   \<and> result (POST_openai sample_runtime
        (sample_world (Some [\<lparr>arguments = Some math_lecture\<rparr>]) Delivered)
        \<lparr>body_prompt = ''Math lecture tomorrow at 9am'', body_eventType = Some ''lecture''\<rparr> [])
     = Response 200
        (JObj [(''title'', JStr ''Math lecture''),
               (''start'', JStr ''2025-07-29T09:00:00Z''),
               (''end'', JStr ''2025-07-29T10:00:00Z''),
               (''eventType'', JStr ''lecture''),
               (''color'', JStr ''#3B82F6''),
               (''resource'', JStr ''lecture'')])
   \<and> events_after (POST_openai sample_runtime
        (sample_world (Some [\<lparr>arguments = Some math_lecture\<rparr>]) Delivered)
        \<lparr>body_prompt = ''Math lecture tomorrow at 9am'', body_eventType = Some ''lecture''\<rparr> [])
     = [[(''title'', Val (JStr ''Math lecture'')),
         (''start'', DateObject (TimeValue 1753779600000)),
         (''end'', DateObject (TimeValue 1753783200000)),
         (''eventType'', Val (JStr ''lecture'')),
         (''color'', Val (JStr ''#3B82F6'')),
         (''resource'', Val (JStr ''lecture''))]]
   \<and> storage_requests (POST_openai sample_runtime
        (sample_world (Some [\<lparr>arguments = Some math_lecture\<rparr>]) Delivered)
        \<lparr>body_prompt = ''Math lecture tomorrow at 9am'', body_eventType = Some ''lecture''\<rparr> [])
     = [JObj [(''title'', JStr ''Math lecture''),
              (''start'', JStr ''2025-07-29T09:00:00Z''),
              (''end'', JStr ''2025-07-29T10:00:00Z''),
              (''eventType'', JStr ''lecture''),
              (''color'', JStr ''#3B82F6''),
              (''resource'', JStr ''lecture'')]]"
proof -
  let ?tc = "\<lparr>arguments = Some math_lecture\<rparr>"
  let ?c = "\<lparr>message = \<lparr>tool_calls = Some [?tc]\<rparr>\<rparr>"
  let ?w = "sample_world (Some [?tc]) Delivered"
  let ?req = "\<lparr>body_prompt = ''Math lecture tomorrow at 9am'', body_eventType = Some ''lecture''\<rparr>"
  let ?p = "[(''title'', JStr ''Math lecture''), (''start'', JStr ''2025-07-29T09:00:00Z''),
             (''end'', JStr ''2025-07-29T10:00:00Z'')]"
  let ?body = "JObj [(''title'', JStr ''Math lecture''),
               (''start'', JStr ''2025-07-29T09:00:00Z''),
               (''end'', JStr ''2025-07-29T10:00:00Z''),
               (''eventType'', JStr ''lecture''),
               (''color'', JStr ''#3B82F6''),
               (''resource'', JStr ''lecture'')]"
  have h1: "completions_create ?w
      (contextualPrompt (body_prompt ?req) (eventType_of ?req) (toDateString_now sample_runtime))
      = Inr \<lparr>choices = [?c]\<rparr>"
    by (rule sample_completion)
  have h2: "choices \<lparr>choices = [?c]\<rparr> = ?c # []" by simp
  have h3: "first_tool_call ?c = Some ?tc" by simp
  have h4: "JSON_parse sample_runtime (arguments_or_default ?tc) = Some (JObj ?p)"
    by (simp only: sample_arguments sample_parse)
  have worlds: "?w\<lparr>events_fetch := f\<rparr> = sample_world (Some [?tc]) f" for f
    by (simp add: sample_world_def)
  have body: "stringify sample_runtime (enhancedEventData (JObj ?p) (eventType_of ?req)) = ?body"
    by (simp add: evaluate)
  have stored: "append_event sample_runtime ?body []
      = [[(''title'', Val (JStr ''Math lecture'')),
          (''start'', DateObject (TimeValue 1753779600000)),
          (''end'', DateObject (TimeValue 1753783200000)),
          (''eventType'', Val (JStr ''lecture'')),
          (''color'', Val (JStr ''#3B82F6'')),
          (''resource'', Val (JStr ''lecture''))]]"
    by (simp add: append_event_def POST_events_def pushed_event_def object_literal_def sample_dates)
  from storage_response_ignored [OF h1 h2 h3 h4, of "[]" 500] h4
  show ?thesis by (simp only: worlds body stored)
qed

text \<open>
  As stated (every submission that obtains a proposal gets the enhanced event back), the
  claim fails when the storage request rejects: the coffee proposal is obtained, the request
  is issued, and the exception escapes the handler.
\<close>

theorem rejected_storage_request_escapes:
  "result (POST_openai sample_runtime
            (sample_world (Some [\<lparr>arguments = Some coffee_without_end\<rparr>]) Rejected)
            \<lparr>body_prompt = ''Coffee with Sam tomorrow at 3pm'', body_eventType = Some ''social''\<rparr> [])
     = Uncaught FetchFailed
   \<and> storage_requests (POST_openai sample_runtime
            (sample_world (Some [\<lparr>arguments = Some coffee_without_end\<rparr>]) Rejected)
            \<lparr>body_prompt = ''Coffee with Sam tomorrow at 3pm'', body_eventType = Some ''social''\<rparr> [])
     = [JObj [(''title'', JStr ''Coffee with Sam''),
              (''start'', JStr ''2025-07-30T15:00:00Z''),
              (''description'', JStr ''Coffee meetup''),
              (''eventType'', JStr ''social''),
              (''color'', JStr ''#EC4899''),
              (''resource'', JStr ''social'')]]"
  by (simp add: evaluate del: arguments_or_default.simps)

text \<open>
  C10. When the arguments of the tool call are absent or the empty string, the handler
  parses \<^verbatim>\<open>'{}'\<close> instead and succeeds: it answers 200 with an event that has no
  \<^verbatim>\<open>title\<close>, \<^verbatim>\<open>start\<close> or \<^verbatim>\<open>end\<close>, and a delivered storage request appends one event
  without \<^verbatim>\<open>title\<close> whose \<^verbatim>\<open>start\<close> and \<^verbatim>\<open>end\<close> are invalid dates.
\<close>

theorem empty_arguments_accepted:
  assumes "completions_create w
             (contextualPrompt (body_prompt req) (eventType_of req) (toDateString_now rt)) = Inr chat"
    and "choices chat = c # cs"
    and "first_tool_call c = Some tc"
    and "arguments tc = None \<or> arguments tc = Some []"
    and "JSON_parse rt ''{}'' = Some (JObj [])"
    and "events_fetch w = Delivered"
  shows "result (POST_openai rt w req EVENTS)
           = Response 200 (stringify rt (enhancedEventData (JObj []) (eventType_of req)))
         \<and> member (stringify rt (enhancedEventData (JObj []) (eventType_of req))) ''title'' = None
         \<and> member (stringify rt (enhancedEventData (JObj []) (eventType_of req))) ''start'' = None
         \<and> member (stringify rt (enhancedEventData (JObj []) (eventType_of req))) ''end'' = None
         \<and> length (events_after (POST_openai rt w req EVENTS)) = length EVENTS + 1
         \<and> map_of (last (events_after (POST_openai rt w req EVENTS))) ''title'' = None
         \<and> map_of (last (events_after (POST_openai rt w req EVENTS))) ''start''
           = Some (DateObject InvalidDate)
         \<and> map_of (last (events_after (POST_openai rt w req EVENTS))) ''end''
           = Some (DateObject InvalidDate)"
proof -
  let ?body = "stringify rt (enhancedEventData (JObj []) (eventType_of req))"
  let ?ev = "pushed_event ?body InvalidDate InvalidDate"
  from assms(4) have "arguments_or_default tc = ''{}''" by auto
  with assms(5) have parsed: "JSON_parse rt (arguments_or_default tc) = Some (JObj [])" by simp
  have r: "result (POST_openai rt w req EVENTS) = Response 200 ?body"
    using assms(1-3) parsed by (rule result_proposal) (simp add: assms(6))
  have missing: "member ?body ''title'' = None" "member ?body ''start'' = None"
    "member ?body ''end'' = None"
    by (simp_all add: member_enhanced_other)
  have st: "events_after (POST_openai rt w req EVENTS) = EVENTS @ [?ev]"
    using assms(1-3) parsed assms(6) by (rule events_after_delivery) simp_all
  have "map_of (spread ?body) ''title'' = None"
    using missing(1) by (simp add: stringify_def)
  then have title: "map_of ?ev ''title'' = None" by (simp add: pushed_event_other)
  have dates: "map_of ?ev ''start'' = Some (DateObject InvalidDate)"
    "map_of ?ev ''end'' = Some (DateObject InvalidDate)"
    by (simp_all add: pushed_event_dates)
  from r missing st title dates show ?thesis by simp
qed

text \<open>The theorem applied to a tool call with the empty string as arguments.\<close>

theorem empty_arguments_accepted_witness:
  "(arguments \<lparr>arguments = Some []\<rparr> = None \<or> arguments \<lparr>arguments = Some []\<rparr> = Some [])
   \<and> JSON_parse sample_runtime ''{}'' = Some (JObj [])
   \<and> result (POST_openai sample_runtime (sample_world (Some [\<lparr>arguments = Some []\<rparr>]) Delivered)
        \<lparr>body_prompt = ''Math lecture tomorrow at 9am'', body_eventType = Some ''lecture''\<rparr> [])
     = Response 200
        (JObj [(''eventType'', JStr ''lecture''), (''color'', JStr ''#3B82F6''),
               (''resource'', JStr ''lecture'')])
   \<and> length (events_after (POST_openai sample_runtime
        (sample_world (Some [\<lparr>arguments = Some []\<rparr>]) Delivered)
        \<lparr>body_prompt = ''Math lecture tomorrow at 9am'', body_eventType = Some ''lecture''\<rparr> [])) = 1
   \<and> map_of (last (events_after (POST_openai sample_runtime
        (sample_world (Some [\<lparr>arguments = Some []\<rparr>]) Delivered)
        \<lparr>body_prompt = ''Math lecture tomorrow at 9am'', body_eventType = Some ''lecture''\<rparr> [])))
        ''start'' = Some (DateObject InvalidDate)
   \<and> map_of (last (events_after (POST_openai sample_runtime
        (sample_world (Some [\<lparr>arguments = Some []\<rparr>]) Delivered)
        \<lparr>body_prompt = ''Math lecture tomorrow at 9am'', body_eventType = Some ''lecture''\<rparr> [])))
        ''end'' = Some (DateObject InvalidDate)"
proof -
  let ?tc = "\<lparr>arguments = Some []\<rparr>"
  let ?c = "\<lparr>message = \<lparr>tool_calls = Some [?tc]\<rparr>\<rparr>"
  let ?w = "sample_world (Some [?tc]) Delivered"
  let ?req = "\<lparr>body_prompt = ''Math lecture tomorrow at 9am'', body_eventType = Some ''lecture''\<rparr>"
  have h1: "completions_create ?w
      (contextualPrompt (body_prompt ?req) (eventType_of ?req) (toDateString_now sample_runtime))
      = Inr \<lparr>choices = [?c]\<rparr>"
    by (rule sample_completion)
  have h2: "choices \<lparr>choices = [?c]\<rparr> = ?c # []" by simp
  have h3: "first_tool_call ?c = Some ?tc" by simp
  have h4: "arguments ?tc = None \<or> arguments ?tc = Some []" by simp
  have h5: "JSON_parse sample_runtime ''{}'' = Some (JObj [])" by (rule sample_parse)
  have h6: "events_fetch ?w = Delivered" by (rule sample_completion)
  have body: "stringify sample_runtime (enhancedEventData (JObj []) (eventType_of ?req))
      = JObj [(''eventType'', JStr ''lecture''), (''color'', JStr ''#3B82F6''),
              (''resource'', JStr ''lecture'')]"
    by (simp add: evaluate)
  from empty_arguments_accepted [OF h1 h2 h3 h4 h5 h6, of "[]"] h4 h5 body
  show ?thesis by simp
qed

text \<open>
  C4. The colour of a category outside the table is meant to be that of \<^verbatim>\<open>other\<close>
  (\<open>resolve_color_unknown\<close>), but for the category \<^verbatim>\<open>constructor\<close> the lookup finds the
  inherited function \<^verbatim>\<open>Object\<close>, which is truthy: the fallback is skipped, and the
  returned event has no \<^verbatim>\<open>color\<close> at all.
\<close>

theorem constructor_category_has_no_color:
  "resolve_color ''constructor'' = NativeFunction ''Object''
   \<and> result (POST_openai sample_runtime
        (sample_world (Some [\<lparr>arguments = Some math_lecture\<rparr>]) Delivered)
        \<lparr>body_prompt = ''Math lecture tomorrow at 9am'', body_eventType = Some ''constructor''\<rparr> [])
     = Response 200
        (JObj [(''title'', JStr ''Math lecture''),
               (''start'', JStr ''2025-07-29T09:00:00Z''),
               (''end'', JStr ''2025-07-29T10:00:00Z''),
               (''eventType'', JStr ''constructor''),
               (''resource'', JStr ''constructor'')])
   \<and> member (case result (POST_openai sample_runtime
        (sample_world (Some [\<lparr>arguments = Some math_lecture\<rparr>]) Delivered)
        \<lparr>body_prompt = ''Math lecture tomorrow at 9am'', body_eventType = Some ''constructor''\<rparr> [])
        of Response status body \<Rightarrow> body | Uncaught e \<Rightarrow> JNull) ''color'' = None"
  by (simp add: evaluate del: arguments_or_default.simps)

section \<open>Properties of the input component\<close>

text \<open>Trimming leaves nothing exactly when every code unit is white space.\<close>

lemma trim_empty_iff: "trim s = [] \<longleftrightarrow> list_all white_space s"
proof
  assume "trim s = []"
  then have "dropWhile white_space (rev (dropWhile white_space s)) = []"
    by (simp add: trim_def)
  then have all: "\<forall>x \<in> set (dropWhile white_space s). white_space x"
    by simp
  have "dropWhile white_space s = []"
  proof (rule ccontr)
    assume ne: "dropWhile white_space s \<noteq> []"
    then have "\<not> white_space (hd (dropWhile white_space s))" by (rule hd_dropWhile)
    moreover from ne have "hd (dropWhile white_space s) \<in> set (dropWhile white_space s)" by simp
    ultimately show False using all by blast
  qed
  then show "list_all white_space s"
    by (simp add: list_all_iff)
next
  assume "list_all white_space s"
  then have "dropWhile white_space s = []"
    by (simp add: list_all_iff)
  then show "trim s = []" by (simp only: trim_def rev.simps dropWhile.simps)
qed

text \<open>
  C2 (amended). Input that is empty after trimming, that is, input of white space and line
  terminators only, is stopped in \<^verbatim>\<open>handleSubmit\<close>: it returns without sending a request
  to any server, so the component's state and the server's state (for the OpenAI route:
  \<^verbatim>\<open>EVENTS\<close> and the number of calls to the completion service) are unchanged. No error is
  produced.
\<close>

theorem blank_input_not_submitted:
  assumes "trim (input u) = []"
  shows "handleSubmit api u server = (u, server)
         \<and> handleSubmit (openai_endpoint rt w) u (EVENTS, calls) = (u, (EVENTS, calls))"
  using assms by (simp add: handleSubmit_def)

text \<open>
  The theorem applied to an input of a space, a no-break space, an em space, U+FEFF and a
  line feed, with a server that counts the requests it gets.
\<close>

theorem blank_input_not_submitted_witness:
  "trim (input \<lparr>input = [0x20, 0xA0, 0x2003, 0xFEFF, 0x0A], loading = False,
                 selectedType = social, showSuccess = False\<rparr>) = []
   \<and> handleSubmit (\<lambda>text category (requests :: nat). (None, requests + 1))
        \<lparr>input = [0x20, 0xA0, 0x2003, 0xFEFF, 0x0A], loading = False, selectedType = social,
         showSuccess = False\<rparr> 0
      = (\<lparr>input = [0x20, 0xA0, 0x2003, 0xFEFF, 0x0A], loading = False, selectedType = social,
          showSuccess = False\<rparr>, 0)
   \<and> handleSubmit
        (openai_endpoint sample_runtime (sample_world (Some [\<lparr>arguments = Some math_lecture\<rparr>]) Delivered))
        \<lparr>input = [0x20, 0xA0, 0x2003, 0xFEFF, 0x0A], loading = False, selectedType = social,
         showSuccess = False\<rparr> ([], 0)
      = (\<lparr>input = [0x20, 0xA0, 0x2003, 0xFEFF, 0x0A], loading = False, selectedType = social,
          showSuccess = False\<rparr>, ([], 0))"
proof -
  let ?u = "\<lparr>input = [0x20, 0xA0, 0x2003, 0xFEFF, 0x0A], loading = False, selectedType = social,
             showSuccess = False\<rparr>"
  have "list_all white_space [0x20, 0xA0, 0x2003, 0xFEFF, 0x0A]"
    by (simp add: white_space_def)
  then have h: "trim (input ?u) = []" by (simp add: trim_empty_iff)
  from blank_input_not_submitted [OF h,
      where api = "\<lambda>text category (requests :: nat). (None, requests + 1)" and server = 0
        and rt = sample_runtime
        and w = "sample_world (Some [\<lparr>arguments = Some math_lecture\<rparr>]) Delivered"
        and EVENTS = "[]" and calls = 0] h
  show ?thesis by simp
qed

text \<open>
  Input with anything else in it is submitted as typed, untrimmed, with the selected
  category: here a request reaches the route, which calls the completion service once and
  stores the event.
\<close>

lemma nonblank_input_submitted:
  "handleSubmit
     (openai_endpoint sample_runtime (sample_world (Some [\<lparr>arguments = Some math_lecture\<rparr>]) Delivered))
     \<lparr>input = [0x20, 0x4D, 0x61, 0x74, 0x68], loading = False, selectedType = lecture,
      showSuccess = False\<rparr> ([], 0)
   = (\<lparr>input = [], loading = False, selectedType = lecture, showSuccess = True\<rparr>,
      ([[(''title'', Val (JStr ''Math lecture'')),
         (''start'', DateObject (TimeValue 1753779600000)),
         (''end'', DateObject (TimeValue 1753783200000)),
         (''eventType'', Val (JStr ''lecture'')),
         (''color'', Val (JStr ''#3B82F6'')),
         (''resource'', Val (JStr ''lecture''))]], 1))"
  by (simp add: handleSubmit_def openai_endpoint_def trim_def white_space_def evaluate
      del: arguments_or_default.simps)

text \<open>
  As stated (an empty request text never reaches the completion service), the claim fails
  on the route itself, which does not look at the prompt: with the empty prompt it calls the
  completion service once and returns the event proposed.
\<close>

theorem empty_prompt_reaches_completion_service:
  "completion_calls (POST_openai sample_runtime
        (sample_world (Some [\<lparr>arguments = Some math_lecture\<rparr>]) Delivered)
        \<lparr>body_prompt = [], body_eventType = Some ''lecture''\<rparr> []) = 1
   \<and> result (POST_openai sample_runtime
        (sample_world (Some [\<lparr>arguments = Some math_lecture\<rparr>]) Delivered)
        \<lparr>body_prompt = [], body_eventType = Some ''lecture''\<rparr> [])
     = Response 200
        (JObj [(''title'', JStr ''Math lecture''),
               (''start'', JStr ''2025-07-29T09:00:00Z''),
               (''end'', JStr ''2025-07-29T10:00:00Z''),
               (''eventType'', JStr ''lecture''),
               (''color'', JStr ''#3B82F6''),
               (''resource'', JStr ''lecture'')])"
  by (simp add: evaluate del: arguments_or_default.simps)

end
